theory Spec2Isabelle
  imports Complex_Main
begin

section \<open>Python values and exceptions\<close>

text \<open>
  The server is one Python module, \<^verbatim>\<open>mcp_server/server.py\<close>. Python \<^verbatim>\<open>str\<close> values are
  modelled by their UTF-8 encoding (a \<open>char list\<close>), so the Chinese text of the error
  messages appears as the bytes of its encoding. Only the kinds of value the module
  compares or formats are distinguished.
\<close>

datatype pyval = PStr string | PInt int | PBool bool | PNone

text \<open>
  The exception classes the module raises or names in an \<^verbatim>\<open>except\<close> clause, each with its
  message; an exception of any other class is \<open>OtherException\<close> with its class name.
  A subclass caught by a clause (\<^verbatim>\<open>FileNotFoundError\<close> by \<^verbatim>\<open>except OSError\<close>) is
  represented by the class of the clause.
\<close>

datatype exn =
    KeyError string
  | ZoneInfoNotFoundError string
  | ValueError string
  | OSError string
  | OverflowError string
  | OtherException string string

section \<open>The ASGI application of the remote mode\<close>

text \<open>
  An ASGI scope is a dictionary. \<^verbatim>\<open>scope["k"]\<close> raises \<^verbatim>\<open>KeyError\<close> on a missing key,
  \<^verbatim>\<open>scope.get("k", d)\<close> returns \<open>d\<close>.
\<close>

type_synonym scope = "string \<rightharpoonup> pyval"

definition subscript :: "scope \<Rightarrow> string \<Rightarrow> exn + pyval" where
  "subscript d k = (case d k of None \<Rightarrow> Inl (KeyError k) | Some v \<Rightarrow> Inr v)"

definition get_default :: "scope \<Rightarrow> string \<Rightarrow> pyval \<Rightarrow> pyval" where
  "get_default d k dflt = (case d k of None \<Rightarrow> dflt | Some v \<Rightarrow> v)"

text \<open>The events \<^verbatim>\<open>app\<close> passes to \<^verbatim>\<open>send\<close>: status with headers, then the body.\<close>

datatype asgi_message =
    Http_response_start nat "(string \<times> string) list"
  | Http_response_body string

text \<open>
  What one call of \<^verbatim>\<open>app\<close> does, in order: the calls into the SSE transport and the
  protocol server of the \<^verbatim>\<open>mcp\<close> library, and the events it sends itself.
\<close>

datatype effect =
    Connect_sse
  | Run_mcp_server
  | Handle_post_message
  | Send asgi_message

text \<open>
  \<^verbatim>\<open>handle_sse\<close> (lines 133-143): enter \<^verbatim>\<open>sse_transport.connect_sse\<close>, then run the protocol
  server on the two streams it yields.
\<close>

definition handle_sse :: "effect list" where
  "handle_sse = [Connect_sse, Run_mcp_server]"

definition not_found_response :: "effect list" where
  "not_found_response =
     [Send (Http_response_start 404 [(''content-type'', ''text/plain'')]),
      Send (Http_response_body ''Not Found'')]"

text \<open>
  \<^verbatim>\<open>app\<close> (lines 145-177). A scope whose type is not \<^verbatim>\<open>"http"\<close> returns at once; the path
  is read with a subscript, the method with \<^verbatim>\<open>get\<close> and the default \<^verbatim>\<open>"GET"\<close>.
\<close>

definition app :: "scope \<Rightarrow> exn + effect list" where
  "app scope =
     (case subscript scope ''type'' of
        Inl e \<Rightarrow> Inl e
      | Inr t \<Rightarrow>
          if t \<noteq> PStr ''http'' then Inr []
          else (case subscript scope ''path'' of
                  Inl e \<Rightarrow> Inl e
                | Inr path \<Rightarrow>
                    (let method = get_default scope ''method'' (PStr ''GET'') in
                     if path = PStr ''/sse'' \<and> method = PStr ''GET'' then Inr handle_sse
                     else if path = PStr ''/messages'' \<and> method = PStr ''POST''
                       then Inr [Handle_post_message]
                     else Inr not_found_response)))"

text \<open>An HTTP scope: the type is \<^verbatim>\<open>"http"\<close> and the path is present.\<close>

definition http_scope :: "scope \<Rightarrow> bool" where
  "http_scope scope = (scope ''type'' = Some (PStr ''http'') \<and> scope ''path'' \<noteq> None)"

definition scope_path :: "scope \<Rightarrow> pyval" where
  "scope_path scope = (case scope ''path'' of None \<Rightarrow> PNone | Some v \<Rightarrow> v)"

definition scope_method :: "scope \<Rightarrow> pyval" where
  "scope_method scope = get_default scope ''method'' (PStr ''GET'')"

definition example_scope :: "string \<Rightarrow> string \<Rightarrow> string \<Rightarrow> scope" where
  "example_scope t m p =
     [''type'' \<mapsto> PStr t, ''method'' \<mapsto> PStr m, ''path'' \<mapsto> PStr p]"


section \<open>The platform the tools call\<close>

text \<open>
  The tools call the standard library: \<^verbatim>\<open>ZoneInfo(key)\<close>, \<^verbatim>\<open>datetime.now(tz)\<close>,
  \<^verbatim>\<open>datetime.now().timestamp()\<close>, \<^verbatim>\<open>datetime.fromtimestamp(ts, tz=tz)\<close> and
  \<^verbatim>\<open>strftime\<close> with the one format \<^verbatim>\<open>"%Y-%m-%d %H:%M:%S %Z"\<close>. The time zone database
  and the clock are not part of the module, so they are a parameter: the functions below
  are stated for every platform. \<^verbatim>\<open>ZoneInfo\<close> and \<^verbatim>\<open>fromtimestamp\<close> may raise; reading the
  clock and formatting a \<^verbatim>\<open>datetime\<close> with this format do not (a \<^verbatim>\<open>datetime\<close> has a
  year from 1 to 9999). The timestamp of the clock is a float, here the rational it denotes.
\<close>

record ('tz, 'dt) platform =
  ZoneInfo :: "string \<Rightarrow> exn + 'tz"
  datetime_now :: "'tz \<Rightarrow> 'dt"
  now_timestamp :: rat
  fromtimestamp :: "int \<Rightarrow> 'tz \<Rightarrow> exn + 'dt"
  strftime :: "'dt \<Rightarrow> string"

text \<open>The library calls a tool makes, in order, so that a call that is never made shows.\<close>

datatype lib_call =
    Call_ZoneInfo string
  | Call_datetime_now
  | Call_now_timestamp
  | Call_fromtimestamp int
  | Call_strftime

section \<open>Formatting integers and the message texts\<close>

text \<open>\<^verbatim>\<open>str(n)\<close> of a Python \<^verbatim>\<open>int\<close>, as an f-string renders it: decimal, with a minus sign.\<close>

fun str_nat :: "nat \<Rightarrow> string" where
  "str_nat n =
     (if n < 10 then [''0123456789'' ! n]
      else str_nat (n div 10) @ [''0123456789'' ! (n mod 10)])"

declare str_nat.simps [simp del]

definition str_int :: "int \<Rightarrow> string" where
  "str_int i = (if i < 0 then ''-'' @ str_nat (nat (- i)) else str_nat (nat i))"

text \<open>\<^verbatim>\<open>int(x)\<close> of a float truncates towards zero.\<close>

definition py_int :: "rat \<Rightarrow> int" where
  "py_int x = (if x < 0 then - \<lfloor>- x\<rfloor> else \<lfloor>x\<rfloor>)"

text \<open>
  The literal parts of the three messages, UTF-8 encoded. \<open>invalid_timezone\<close> is the text
  before the name in lines 64 and 105, \<open>full_stop\<close> the ideographic full stop after it in
  line 64, \<open>timezone_hint\<close> the second f-string of line 65, \<open>invalid_timestamp\<close> and
  \<open>error_label\<close> the two literal parts of line 112.
\<close>

definition invalid_timezone :: string where
  "invalid_timezone =
     [CHR 0xE6, CHR 0x97, CHR 0xA0, CHR 0xE6, CHR 0x95, CHR 0x88, CHR 0xE7, CHR 0x9A, CHR 0x84,
      CHR 0xE6, CHR 0x97, CHR 0xB6, CHR 0xE5, CHR 0x8C, CHR 0xBA, CHR 0xE5, CHR 0x90, CHR 0x8D,
      CHR 0xE7, CHR 0xA7, CHR 0xB0] @ '': ''"

definition full_stop :: string where
  "full_stop = [CHR 0xE3, CHR 0x80, CHR 0x82]"

definition timezone_hint :: string where
  "timezone_hint =
     [CHR 0xE8, CHR 0xAF, CHR 0xB7, CHR 0xE4, CHR 0xBD, CHR 0xBF, CHR 0xE7, CHR 0x94, CHR 0xA8,
      CHR 0xE6, CHR 0xA0, CHR 0x87, CHR 0xE5, CHR 0x87, CHR 0x86, CHR 0xE6, CHR 0x97, CHR 0xB6,
      CHR 0xE5, CHR 0x8C, CHR 0xBA, CHR 0xE5, CHR 0x90, CHR 0x8D, CHR 0xE7, CHR 0xA7, CHR 0xB0,
      CHR 0xEF, CHR 0xBC, CHR 0x8C, CHR 0xE5, CHR 0xA6, CHR 0x82]
     @ '' '' @ [CHR 0x27] @ ''Asia/Shanghai'' @ [CHR 0x27]
     @ '', '' @ [CHR 0x27] @ ''UTC'' @ [CHR 0x27]
     @ '', '' @ [CHR 0x27] @ ''America/New_York'' @ [CHR 0x27] @ '' ''
     @ [CHR 0xE7, CHR 0xAD, CHR 0x89, CHR 0xE3, CHR 0x80, CHR 0x82]"

definition invalid_timestamp :: string where
  "invalid_timestamp =
     [CHR 0xE6, CHR 0x97, CHR 0xA0, CHR 0xE6, CHR 0x95, CHR 0x88, CHR 0xE7, CHR 0x9A, CHR 0x84,
      CHR 0xE6, CHR 0x97, CHR 0xB6, CHR 0xE9, CHR 0x97, CHR 0xB4, CHR 0xE6, CHR 0x88, CHR 0xB3]
     @ '': ''"

definition error_label :: string where
  "error_label =
     [CHR 0xE3, CHR 0x80, CHR 0x82, CHR 0xE9, CHR 0x94, CHR 0x99, CHR 0xE8, CHR 0xAF, CHR 0xAF]
     @ '': ''"

text \<open>\<^verbatim>\<open>str(e)\<close> of a caught \<^verbatim>\<open>OSError\<close> or \<^verbatim>\<open>OverflowError\<close>: its message.\<close>

fun exn_message :: "exn \<Rightarrow> string" where
  "exn_message (KeyError m) = m"
| "exn_message (ZoneInfoNotFoundError m) = m"
| "exn_message (ValueError m) = m"
| "exn_message (OSError m) = m"
| "exn_message (OverflowError m) = m"
| "exn_message (OtherException c m) = m"

section \<open>The three tools\<close>

text \<open>
  A tool returns the library calls it made and its outcome: \<open>Inl\<close> the exception that leaves
  the function, \<open>Inr\<close> the value returned.
\<close>

text \<open>
  \<^verbatim>\<open>get_current_time\<close> (lines 37-70). Only \<^verbatim>\<open>ZoneInfoNotFoundError\<close> is caught around
  \<^verbatim>\<open>ZoneInfo\<close>; any other exception of the lookup leaves the function as it is.
\<close>

definition get_current_time ::
  "('tz, 'dt) platform \<Rightarrow> string \<Rightarrow> lib_call list \<times> (exn + string)" where
  "get_current_time P timezone =
     (case ZoneInfo P timezone of
        Inl e \<Rightarrow>
          (case e of
             ZoneInfoNotFoundError m \<Rightarrow>
               ([Call_ZoneInfo timezone],
                Inl (ValueError (invalid_timezone @ timezone @ full_stop @ timezone_hint)))
           | _ \<Rightarrow> ([Call_ZoneInfo timezone], Inl e))
      | Inr tz \<Rightarrow>
          ([Call_ZoneInfo timezone, Call_datetime_now, Call_strftime],
           Inr (strftime P (datetime_now P tz))))"

text \<open>\<^verbatim>\<open>get_timestamp\<close> (lines 74-84).\<close>

definition get_timestamp :: "('tz, 'dt) platform \<Rightarrow> lib_call list \<times> (exn + int)" where
  "get_timestamp P = ([Call_now_timestamp], Inr (py_int (now_timestamp P)))"

text \<open>
  \<^verbatim>\<open>format_timestamp\<close> (lines 88-112): the time zone first, then the conversion, whose
  \<^verbatim>\<open>OSError\<close> and \<^verbatim>\<open>OverflowError\<close> become a \<^verbatim>\<open>ValueError\<close> with the timestamp and the
  text of the caught exception. Any other exception of the conversion is not caught.
\<close>

definition format_timestamp ::
  "('tz, 'dt) platform \<Rightarrow> int \<Rightarrow> string \<Rightarrow> lib_call list \<times> (exn + string)" where
  "format_timestamp P timestamp timezone =
     (case ZoneInfo P timezone of
        Inl e \<Rightarrow>
          (case e of
             ZoneInfoNotFoundError m \<Rightarrow>
               ([Call_ZoneInfo timezone], Inl (ValueError (invalid_timezone @ timezone)))
           | _ \<Rightarrow> ([Call_ZoneInfo timezone], Inl e))
      | Inr tz \<Rightarrow>
          (case fromtimestamp P timestamp tz of
             Inr dt \<Rightarrow>
               ([Call_ZoneInfo timezone, Call_fromtimestamp timestamp, Call_strftime],
                Inr (strftime P dt))
           | Inl e \<Rightarrow>
               ([Call_ZoneInfo timezone, Call_fromtimestamp timestamp],
                (case e of
                   OSError m \<Rightarrow>
                     Inl (ValueError
                       (invalid_timestamp @ str_int timestamp @ error_label @ exn_message e))
                 | OverflowError m \<Rightarrow>
                     Inl (ValueError
                       (invalid_timestamp @ str_int timestamp @ error_label @ exn_message e))
                 | _ \<Rightarrow> Inl e))))"

text \<open>
  A small platform to run the tools on: two zones, a clock standing at 1700000000.5
  seconds, a conversion that overflows beyond 64 bits and rejects years past 9999 as
  CPython does, and a \<^verbatim>\<open>datetime\<close> kept as its seconds with the zone's abbreviation.
\<close>

definition example_platform :: "(string \<times> int, int \<times> string) platform" where
  "example_platform =
     \<lparr> ZoneInfo = (\<lambda>key.
         if key = ''UTC'' then Inr (''UTC'', 0)
         else if key = ''Asia/Shanghai'' then Inr (''CST'', 28800)
         else if key = ''/etc/passwd''
           then Inl (ValueError (''ZoneInfo keys may not be absolute paths, got: '' @ key))
         else Inl (ZoneInfoNotFoundError (''No time zone found with key '' @ key))),
       datetime_now = (\<lambda>(abbr, off). (1700000000 + off, abbr)),
       now_timestamp = 3400000001 / 2,
       fromtimestamp = (\<lambda>ts (abbr, off).
         if ts < - (2 ^ 63) \<or> 2 ^ 63 \<le> ts
           then Inl (OverflowError ''timestamp out of range for platform time_t'')
         else if ts + off < - 62135596800 \<or> 253402300800 \<le> ts + off
           then Inl (ValueError ''year is out of range'')
         else Inr (ts + off, abbr)),
       strftime = (\<lambda>(secs, abbr). str_int secs @ '' '' @ abbr) \<rparr>"

section \<open>Startup\<close>

text \<open>
  \<^verbatim>\<open>main\<close> (lines 193-233) reads the command line once, with \<^verbatim>\<open>argparse\<close>. The options
  the parser recognised are the input here, in the order given; its own tokenising, its
  help text and its usage errors (which end the process inside \<^verbatim>\<open>parse_args\<close>) belong to
  the library. \<^verbatim>\<open>--remote\<close> stores \<^verbatim>\<open>True\<close>; \<^verbatim>\<open>--host\<close> and \<^verbatim>\<open>--port\<close> store their value,
  a later occurrence replacing an earlier one; the defaults are those of lines 211-221.
\<close>

datatype cli_option = Remote | Host string | Port int

record args =
  remote :: bool
  host :: string
  port :: int

definition default_args :: args where
  "default_args = \<lparr> remote = False, host = ''0.0.0.0'', port = 8000 \<rparr>"

fun store :: "args \<Rightarrow> cli_option \<Rightarrow> args" where
  "store a Remote = a\<lparr>remote := True\<rparr>"
| "store a (Host h) = a\<lparr>host := h\<rparr>"
| "store a (Port p) = a\<lparr>port := p\<rparr>"

definition parse_args :: "cli_option list \<Rightarrow> args" where
  "parse_args opts = foldl store default_args opts"

text \<open>
  What the process does once the arguments are parsed: lines printed to standard error,
  and the one call that starts a transport: \<^verbatim>\<open>uvicorn.run(app, host=..., port=...)\<close> or
  \<^verbatim>\<open>mcp.run(transport="stdio")\<close>.
\<close>

datatype main_effect =
    Print_stderr string
  | Uvicorn_run string int
  | Mcp_run string

fun starts_transport :: "main_effect \<Rightarrow> bool" where
  "starts_transport (Print_stderr s) = False"
| "starts_transport (Uvicorn_run h p) = True"
| "starts_transport (Mcp_run t) = True"

definition banner :: string where
  "banner =
     [CHR 0xF0, CHR 0x9F, CHR 0x8C, CHR 0x90] @ '' ''
     @ [CHR 0xE5, CHR 0x90, CHR 0xAF, CHR 0xE5, CHR 0x8A, CHR 0xA8, CHR 0xE8, CHR 0xBF, CHR 0x9C,
        CHR 0xE7, CHR 0xA8, CHR 0x8B]
     @ ''MCP''
     @ [CHR 0xE6, CHR 0x9C, CHR 0x8D, CHR 0xE5, CHR 0x8A, CHR 0xA1, CHR 0xE5, CHR 0x99, CHR 0xA8]
     @ ''...''"

definition address_label :: string where
  "address_label =
     ''   '' @ [CHR 0xE5, CHR 0x9C, CHR 0xB0, CHR 0xE5, CHR 0x9D, CHR 0x80] @ '': http://''"

definition sse_label :: string where
  "sse_label =
     ''   SSE'' @ [CHR 0xE7, CHR 0xAB, CHR 0xAF, CHR 0xE7, CHR 0x82, CHR 0xB9] @ '': http://''"

definition messages_label :: string where
  "messages_label =
     ''   ''
     @ [CHR 0xE6, CHR 0xB6, CHR 0x88, CHR 0xE6, CHR 0x81, CHR 0xAF, CHR 0xE7, CHR 0xAB, CHR 0xAF,
        CHR 0xE7, CHR 0x82, CHR 0xB9]
     @ '': http://''"

text \<open>
  \<^verbatim>\<open>run_sse_server\<close> (lines 120-185): after the transport and the two handlers are built,
  four lines are printed and \<^verbatim>\<open>uvicorn.run\<close> serves \<^verbatim>\<open>app\<close> on the given host and port.
\<close>

definition run_sse_server :: "string \<Rightarrow> int \<Rightarrow> main_effect list" where
  "run_sse_server h p =
     [Print_stderr banner,
      Print_stderr (address_label @ h @ '':'' @ str_int p),
      Print_stderr (sse_label @ h @ '':'' @ str_int p @ ''/sse''),
      Print_stderr (messages_label @ h @ '':'' @ str_int p @ ''/messages''),
      Uvicorn_run h p]"

definition main :: "cli_option list \<Rightarrow> main_effect list" where
  "main opts =
     (let a = parse_args opts in
      if remote a then run_sse_server (host a) (port a) else [Mcp_run ''stdio''])"

text \<open>The host and port a command line asks for: the last one given, else the default.\<close>

fun hosts_given :: "cli_option list \<Rightarrow> string list" where
  "hosts_given [] = []"
| "hosts_given (Host h # xs) = h # hosts_given xs"
| "hosts_given (x # xs) = hosts_given xs"

fun ports_given :: "cli_option list \<Rightarrow> int list" where
  "ports_given [] = []"
| "ports_given (Port p # xs) = p # ports_given xs"
| "ports_given (x # xs) = ports_given xs"

definition chosen_host :: "cli_option list \<Rightarrow> string" where
  "chosen_host opts =
     (if hosts_given opts = [] then ''0.0.0.0'' else last (hosts_given opts))"

definition chosen_port :: "cli_option list \<Rightarrow> int" where
  "chosen_port opts =
     (if ports_given opts = [] then 8000 else last (ports_given opts))"

section \<open>The tool registry and the dispatcher\<close>

text \<open>
  Modelled from the spec: the Tool Registry and the tool descriptors of sections 3 and
  4.1. The module keeps its tools in the \<^verbatim>\<open>FastMCP\<close> object of line 25, whose code is
  not part of the module; the module only applies \<^verbatim>\<open>@mcp.tool()\<close> to three functions. A
  descriptor has the name, the input schema (the parameters with their kind and default;
  a parameter without a default is required) and the handler; the description, which
  is the function's docstring, is left out. \<open>register\<close> fails on a name already present,
  \<open>lookup\<close> on a name that is absent, \<open>list_tools\<close> returns the descriptors in registration
  order.
\<close>

datatype kind = KStr | KInt

record param =
  pname :: string
  pkind :: kind
  pdefault :: "pyval option"

type_synonym tool_arguments = "string \<rightharpoonup> pyval"

record ('tz, 'dt) ToolDescriptor =
  name :: string
  inputSchema :: "param list"
  handler :: "('tz, 'dt) platform \<Rightarrow> tool_arguments \<Rightarrow> exn + pyval"

datatype registry_error = DuplicateNameError string | NotFoundError string

type_synonym ('tz, 'dt) registry = "('tz, 'dt) ToolDescriptor list"

definition register ::
  "('tz, 'dt) ToolDescriptor \<Rightarrow> ('tz, 'dt) registry \<Rightarrow> registry_error + ('tz, 'dt) registry" where
  "register d reg =
     (if name d \<in> set (map name reg) then Inl (DuplicateNameError (name d))
      else Inr (reg @ [d]))"

definition lookup ::
  "('tz, 'dt) registry \<Rightarrow> string \<Rightarrow> registry_error + ('tz, 'dt) ToolDescriptor" where
  "lookup reg n =
     (case find (\<lambda>d. name d = n) reg of
        None \<Rightarrow> Inl (NotFoundError n)
      | Some d \<Rightarrow> Inr d)"

definition list_tools :: "('tz, 'dt) registry \<Rightarrow> ('tz, 'dt) ToolDescriptor list" where
  "list_tools reg = reg"

text \<open>
  The three descriptors the decorators of lines 36, 73 and 87 build: the name is the
  function's name, the schema its signature (lines 37, 74 and 88), the handler the
  function, called with the arguments bound to its parameters and the defaults filled in.
\<close>

definition str_arg :: "tool_arguments \<Rightarrow> string \<Rightarrow> string \<Rightarrow> string" where
  "str_arg a k dflt = (case a k of Some (PStr s) \<Rightarrow> s | _ \<Rightarrow> dflt)"

definition int_arg :: "tool_arguments \<Rightarrow> string \<Rightarrow> int" where
  "int_arg a k = (case a k of Some (PInt i) \<Rightarrow> i | _ \<Rightarrow> 0)"

definition get_current_time_tool :: "('tz, 'dt) ToolDescriptor" where
  "get_current_time_tool =
     \<lparr> name = ''get_current_time'',
       inputSchema =
         [\<lparr> pname = ''timezone'', pkind = KStr, pdefault = Some (PStr ''Asia/Shanghai'') \<rparr>],
       handler = (\<lambda>P a.
         map_sum id PStr (snd (get_current_time P (str_arg a ''timezone'' ''Asia/Shanghai'')))) \<rparr>"

definition get_timestamp_tool :: "('tz, 'dt) ToolDescriptor" where
  "get_timestamp_tool =
     \<lparr> name = ''get_timestamp'',
       inputSchema = [],
       handler = (\<lambda>P a. map_sum id PInt (snd (get_timestamp P))) \<rparr>"

definition format_timestamp_tool :: "('tz, 'dt) ToolDescriptor" where
  "format_timestamp_tool =
     \<lparr> name = ''format_timestamp'',
       inputSchema =
         [\<lparr> pname = ''timestamp'', pkind = KInt, pdefault = None \<rparr>,
          \<lparr> pname = ''timezone'', pkind = KStr, pdefault = Some (PStr ''Asia/Shanghai'') \<rparr>],
       handler = (\<lambda>P a.
         map_sum id PStr
           (snd (format_timestamp P (int_arg a ''timestamp'')
                   (str_arg a ''timezone'' ''Asia/Shanghai'')))) \<rparr>"

text \<open>
  Importing the module runs its top level in order: the registry starts empty (line 25)
  and the three decorators register their function, before \<^verbatim>\<open>main\<close> is even defined.
\<close>

definition module_import :: "registry_error + ('tz, 'dt) registry" where
  "module_import =
     (case register get_current_time_tool [] of
        Inl e \<Rightarrow> Inl e
      | Inr r1 \<Rightarrow>
          (case register get_timestamp_tool r1 of
             Inl e \<Rightarrow> Inl e
           | Inr r2 \<Rightarrow> register format_timestamp_tool r2))"

text \<open>
  The process: the import, then \<^verbatim>\<open>main\<close> (line 238, or the entry point that imports the
  module and calls it). The result is the registry \<^verbatim>\<open>main\<close> finds and what \<^verbatim>\<open>main\<close> does.
\<close>

definition process ::
  "cli_option list \<Rightarrow> registry_error + ('tz, 'dt) registry \<times> main_effect list" where
  "process opts =
     (case module_import of
        Inl e \<Rightarrow> Inl e
      | Inr reg \<Rightarrow> Inr (reg, main opts))"

text \<open>
  Modelled from the spec: the Dispatcher of section 4.2, which the \<^verbatim>\<open>mcp\<close> library
  implements and the module does not. A request names a tool; on a miss the result is the
  error \<^verbatim>\<open>unknown tool: <name>\<close>; on a hit the arguments are checked against the schema
  (a missing required field, a value of the wrong kind), and the handler is called; an
  exception of the handler becomes the error of the result. A result has exactly one of
  value and error.
\<close>

record CallRequest =
  req_id :: string
  toolName :: string
  arguments :: tool_arguments

record CallResult =
  res_id :: string
  res_value :: "pyval option"
  res_error :: "string option"

fun has_kind :: "kind \<Rightarrow> pyval \<Rightarrow> bool" where
  "has_kind KStr (PStr s) = True"
| "has_kind KInt (PInt i) = True"
| "has_kind k v = False"

fun validate :: "param list \<Rightarrow> tool_arguments \<Rightarrow> string option" where
  "validate [] a = None"
| "validate (p # ps) a =
     (case a (pname p) of
        None \<Rightarrow>
          (if pdefault p = None then Some (pname p @ '': missing required field'')
           else validate ps a)
      | Some v \<Rightarrow>
          (if has_kind (pkind p) v then validate ps a
           else Some (pname p @ '': wrong value kind'')))"

definition dispatch ::
  "('tz, 'dt) registry \<Rightarrow> ('tz, 'dt) platform \<Rightarrow> CallRequest \<Rightarrow> CallResult" where
  "dispatch reg P request =
     (case lookup reg (toolName request) of
        Inl e \<Rightarrow>
          \<lparr> res_id = req_id request, res_value = None,
            res_error = Some (''unknown tool: '' @ toolName request) \<rparr>
      | Inr d \<Rightarrow>
          (case validate (inputSchema d) (arguments request) of
             Some reason \<Rightarrow>
               \<lparr> res_id = req_id request, res_value = None, res_error = Some reason \<rparr>
           | None \<Rightarrow>
               (case handler d P (arguments request) of
                  Inl e \<Rightarrow>
                    \<lparr> res_id = req_id request, res_value = None,
                      res_error = Some (exn_message e) \<rparr>
                | Inr v \<Rightarrow>
                    \<lparr> res_id = req_id request, res_value = Some v, res_error = None \<rparr>)))"

section \<open>The SSE transport and the served exchanges\<close>

text \<open>
  Modelled from the spec: the networked transport of sections 3 and 4.5, which is the
  \<^verbatim>\<open>SseServerTransport\<close> of the \<^verbatim>\<open>mcp\<close> library; the module constructs it with the
  endpoint path (line 131) and calls its \<^verbatim>\<open>connect_sse\<close> and \<^verbatim>\<open>handle_post_message\<close>. The
  transport holds the endpoint and the registry of live sessions, each with the messages
  delivered to its inbound channel. Opening a stream registers the session under the
  identifier minted for it and announces the URL to post to: the endpoint with the session
  identifier. A post carries a session token and a body, \<open>None\<close> when the body cannot be
  decoded; it is acknowledged (a 202-class status) when the token names a live session
  and the body is well formed, and answered with a client error (4xx) on an unknown
  session or a malformed body. Closing a session removes its entry.
\<close>

type_synonym message = string

record SseServerTransport =
  endpoint :: string
  sessions :: "string \<rightharpoonup> message list"

record endpoint_url =
  url_path :: string
  url_session_id :: string

datatype post_status = Accepted_202 | Client_error_4xx

record post =
  session_token :: "string option"
  body :: "message option"

definition new_transport :: "string \<Rightarrow> SseServerTransport" where
  "new_transport e = \<lparr> endpoint = e, sessions = Map.empty \<rparr>"

definition connect_sse ::
  "SseServerTransport \<Rightarrow> string \<Rightarrow> SseServerTransport \<times> endpoint_url" where
  "connect_sse tr sid =
     (tr\<lparr>sessions := (sessions tr)(sid \<mapsto> [])\<rparr>,
      \<lparr> url_path = endpoint tr, url_session_id = sid \<rparr>)"

definition handle_post_message ::
  "SseServerTransport \<Rightarrow> post \<Rightarrow> SseServerTransport \<times> post_status" where
  "handle_post_message tr p =
     (case session_token p of
        None \<Rightarrow> (tr, Client_error_4xx)
      | Some sid \<Rightarrow>
          (case sessions tr sid of
             None \<Rightarrow> (tr, Client_error_4xx)
           | Some inbound \<Rightarrow>
               (case body p of
                  None \<Rightarrow> (tr, Client_error_4xx)
                | Some m \<Rightarrow>
                    (tr\<lparr>sessions := (sessions tr)(sid \<mapsto> inbound @ [m])\<rparr>,
                     Accepted_202))))"

definition close_session :: "SseServerTransport \<Rightarrow> string \<Rightarrow> SseServerTransport" where
  "close_session tr sid = tr\<lparr>sessions := (sessions tr)(sid := None)\<rparr>"

text \<open>
  The server in remote mode: the registry built at import and the transport of line 131.
  A request is the scope, with what the transport reads from the exchange beyond it: the
  identifier minted if the request opens a stream, and the token and body if it is a post.
\<close>

record ('tz, 'dt) server =
  tools :: "('tz, 'dt) registry"
  sse_transport :: SseServerTransport

definition remote_server :: "('tz, 'dt) registry \<Rightarrow> ('tz, 'dt) server" where
  "remote_server reg = \<lparr> tools = reg, sse_transport = new_transport ''/messages'' \<rparr>"

record request =
  rq_scope :: scope
  rq_minted :: string
  rq_post :: post

datatype reply =
    Sent asgi_message
  | Endpoint_event endpoint_url
  | Post_reply post_status
  | App_raised exn

text \<open>
  One effect of \<^verbatim>\<open>app\<close> carried out on the server: the transport's calls change the
  transport and reply through it, a sent event is a reply, and running the protocol server
  on the session's streams reads the registry and leaves the server as it is.
\<close>

fun perform ::
  "request \<Rightarrow> ('tz, 'dt) server \<times> reply list \<Rightarrow> effect \<Rightarrow> ('tz, 'dt) server \<times> reply list" where
  "perform rq (srv, out) Connect_sse =
     (case connect_sse (sse_transport srv) (rq_minted rq) of
        (tr, url) \<Rightarrow> (srv\<lparr>sse_transport := tr\<rparr>, out @ [Endpoint_event url]))"
| "perform rq (srv, out) Run_mcp_server = (srv, out)"
| "perform rq (srv, out) Handle_post_message =
     (case handle_post_message (sse_transport srv) (rq_post rq) of
        (tr, st) \<Rightarrow> (srv\<lparr>sse_transport := tr\<rparr>, out @ [Post_reply st]))"
| "perform rq (srv, out) (Send m) = (srv, out @ [Sent m])"

definition exchange :: "('tz, 'dt) server \<Rightarrow> request \<Rightarrow> ('tz, 'dt) server \<times> reply list" where
  "exchange srv rq =
     (case app (rq_scope rq) of
        Inl e \<Rightarrow> (srv, [App_raised e])
      | Inr effs \<Rightarrow> foldl (perform rq) (srv, []) effs)"

text \<open>What happens to a serving process: a request arrives, or a stream's connection closes.\<close>

datatype event = Http request | Disconnect string

fun step :: "('tz, 'dt) server \<Rightarrow> event \<Rightarrow> ('tz, 'dt) server" where
  "step srv (Http rq) = fst (exchange srv rq)"
| "step srv (Disconnect sid) =
     srv\<lparr>sse_transport := close_session (sse_transport srv) sid\<rparr>"

definition serve :: "('tz, 'dt) server \<Rightarrow> event list \<Rightarrow> ('tz, 'dt) server" where
  "serve srv evs = foldl step srv evs"

text \<open>The request a client makes when it posts a message to an announced URL.\<close>

definition post_to :: "endpoint_url \<Rightarrow> message option \<Rightarrow> request" where
  "post_to url b =
     \<lparr> rq_scope = [''type'' \<mapsto> PStr ''http'', ''method'' \<mapsto> PStr ''POST'',
                    ''path'' \<mapsto> PStr (url_path url)],
       rq_minted = [],
       rq_post = \<lparr> session_token = Some (url_session_id url), body = b \<rparr> \<rparr>"

definition open_stream :: "string \<Rightarrow> request" where
  "open_stream sid =
     \<lparr> rq_scope = [''type'' \<mapsto> PStr ''http'', ''method'' \<mapsto> PStr ''GET'',
                    ''path'' \<mapsto> PStr ''/sse''],
       rq_minted = sid,
       rq_post = \<lparr> session_token = None, body = None \<rparr> \<rparr>"

section \<open>Routing\<close>

lemma app_http:
  assumes "http_scope scope"
  shows "app scope =
     (if scope_path scope = PStr ''/sse'' \<and> scope_method scope = PStr ''GET''
        then Inr handle_sse
      else if scope_path scope = PStr ''/messages'' \<and> scope_method scope = PStr ''POST''
        then Inr [Handle_post_message]
      else Inr not_found_response)"
  using assms
  by (auto simp: http_scope_def app_def subscript_def scope_path_def scope_method_def Let_def)

text \<open>
  C1. On every HTTP scope the router enters the SSE session handler exactly when the
  path is \<^verbatim>\<open>/sse\<close> and the method \<^verbatim>\<open>GET\<close>, hands the exchange to the message-delivery
  handler exactly when the path is \<^verbatim>\<open>/messages\<close> and the method \<^verbatim>\<open>POST\<close>, and in every
  other case sends status 404 with a \<^verbatim>\<open>text/plain\<close> header and the body \<^verbatim>\<open>Not Found\<close>,
  and nothing else.
\<close>

theorem app_routes:
  assumes "http_scope scope"
  shows "(app scope = Inr handle_sse \<longleftrightarrow>
            scope_path scope = PStr ''/sse'' \<and> scope_method scope = PStr ''GET'')
       \<and> (app scope = Inr [Handle_post_message] \<longleftrightarrow>
            scope_path scope = PStr ''/messages'' \<and> scope_method scope = PStr ''POST'')
       \<and> (app scope =
            Inr [Send (Http_response_start 404 [(''content-type'', ''text/plain'')]),
                 Send (Http_response_body ''Not Found'')] \<longleftrightarrow>
            \<not> (scope_path scope = PStr ''/sse'' \<and> scope_method scope = PStr ''GET'')
          \<and> \<not> (scope_path scope = PStr ''/messages'' \<and> scope_method scope = PStr ''POST''))"
  unfolding app_http [OF assms]
  by (simp add: handle_sse_def not_found_response_def)

theorem app_routes_witness:
  "http_scope (example_scope ''http'' ''PUT'' ''/sse'')
   \<and> app (example_scope ''http'' ''PUT'' ''/sse'') =
       Inr [Send (Http_response_start 404 [(''content-type'', ''text/plain'')]),
            Send (Http_response_body ''Not Found'')]"
proof -
  have h: "http_scope (example_scope ''http'' ''PUT'' ''/sse'')"
    by (simp add: http_scope_def example_scope_def)
  have p: "scope_path (example_scope ''http'' ''PUT'' ''/sse'') = PStr ''/sse''"
    by (simp add: scope_path_def example_scope_def)
  have m: "scope_method (example_scope ''http'' ''PUT'' ''/sse'') = PStr ''PUT''"
    by (simp add: scope_method_def get_default_def example_scope_def)
  show ?thesis using h app_routes [OF h] by (simp add: p m)
qed

text \<open>
  C9. A scope whose type is anything but \<^verbatim>\<open>"http"\<close> (lifespan, websocket) makes the
  application return at once: it sends no event and calls no handler.
\<close>

theorem app_ignores_non_http:
  assumes "scope ''type'' = Some t" and "t \<noteq> PStr ''http''"
  shows "app scope = Inr []"
  using assms by (simp add: app_def subscript_def)

theorem app_ignores_non_http_witness:
  "example_scope ''lifespan'' ''GET'' ''/sse'' ''type'' = Some (PStr ''lifespan'')
   \<and> PStr ''lifespan'' \<noteq> PStr ''http''
   \<and> app (example_scope ''lifespan'' ''GET'' ''/sse'') = Inr []"
proof -
  have a: "example_scope ''lifespan'' ''GET'' ''/sse'' ''type'' = Some (PStr ''lifespan'')"
    by (simp add: example_scope_def)
  have b: "PStr ''lifespan'' \<noteq> PStr ''http''" by simp
  show ?thesis
    using a b
      app_ignores_non_http [of "example_scope ''lifespan'' ''GET'' ''/sse''" "PStr ''lifespan''"]
    by simp
qed

section \<open>The tools' errors\<close>



text \<open>
  C3. With a time zone that was found: when the conversion of the timestamp raises
  \<^verbatim>\<open>OSError\<close> or \<^verbatim>\<open>OverflowError\<close>, \<^verbatim>\<open>format_timestamp\<close> raises a \<^verbatim>\<open>ValueError\<close> whose
  message contains the timestamp in decimal and the text of the caught exception; neither
  \<^verbatim>\<open>OSError\<close> nor \<^verbatim>\<open>OverflowError\<close> ever leaves the function; and when the conversion
  succeeds the formatted \<^verbatim>\<open>datetime\<close> is returned.
\<close>

theorem timestamp_validation:
  assumes "ZoneInfo P tz = Inr z"
  shows "(fromtimestamp P ts z = Inl (OSError m) \<or> fromtimestamp P ts z = Inl (OverflowError m)
            \<longrightarrow> snd (format_timestamp P ts tz) =
                  Inl (ValueError (invalid_timestamp @ str_int ts @ error_label @ m)))
       \<and> (\<forall>m'. snd (format_timestamp P ts tz) \<noteq> Inl (OSError m')
              \<and> snd (format_timestamp P ts tz) \<noteq> Inl (OverflowError m'))
       \<and> (fromtimestamp P ts z = Inr dt
            \<longrightarrow> snd (format_timestamp P ts tz) = Inr (strftime P dt))"
  using assms
  by (auto simp: format_timestamp_def split: sum.splits exn.splits)

theorem timestamp_validation_witness:
  "ZoneInfo example_platform ''UTC'' = Inr (''UTC'', 0)
   \<and> fromtimestamp example_platform 9223372036854775808 (''UTC'', 0) =
       Inl (OverflowError ''timestamp out of range for platform time_t'')
   \<and> snd (format_timestamp example_platform 9223372036854775808 ''UTC'') =
       Inl (ValueError (invalid_timestamp @ ''9223372036854775808'' @ error_label
              @ ''timestamp out of range for platform time_t''))
   \<and> fromtimestamp example_platform 86400 (''UTC'', 0) = Inr (86400, ''UTC'')
   \<and> snd (format_timestamp example_platform 86400 ''UTC'') = Inr ''86400 UTC''"
proof -
  have z: "ZoneInfo example_platform ''UTC'' = Inr (''UTC'', 0)"
    by (simp add: example_platform_def)
  have a: "fromtimestamp example_platform 9223372036854775808 (''UTC'', 0) =
       Inl (OverflowError ''timestamp out of range for platform time_t'')"
    by (simp add: example_platform_def)
  have b: "fromtimestamp example_platform 86400 (''UTC'', 0) = Inr (86400, ''UTC'')"
    by (simp add: example_platform_def)
  have c: "str_int 9223372036854775808 = ''9223372036854775808''"
    by (simp add: str_int_def str_nat.simps)
  have d: "strftime example_platform (86400, ''UTC'') = ''86400 UTC''"
    by (simp add: example_platform_def str_int_def str_nat.simps)
  show ?thesis
    using z a b
      timestamp_validation [OF z, of 9223372036854775808
        "''timestamp out of range for platform time_t''" "(86400, ''UTC'')"]
      timestamp_validation [OF z, of 86400 "''''" "(86400, ''UTC'')"]
    by (simp add: c d)
qed



section \<open>The registry and the dispatcher\<close>

lemma module_import_tools:
  "module_import = Inr [get_current_time_tool, get_timestamp_tool, format_timestamp_tool]"
  by (simp add: module_import_def register_def get_current_time_tool_def
      get_timestamp_tool_def format_timestamp_tool_def)

lemma lookup_miss:
  assumes "n \<notin> set (map name reg)"
  shows "lookup reg n = Inl (NotFoundError n)"
proof -
  have "find (\<lambda>d. name d = n) reg = None"
    using assms by (auto simp: find_None_iff)
  then show ?thesis by (simp add: lookup_def)
qed

lemma registered_names:
  "name get_current_time_tool = ''get_current_time''"
  "name get_timestamp_tool = ''get_timestamp''"
  "name format_timestamp_tool = ''format_timestamp''"
  by (simp_all add: get_current_time_tool_def get_timestamp_tool_def format_timestamp_tool_def)

text \<open>
  C4. With the registry the import builds, a call that names none of
  \<^verbatim>\<open>get_current_time\<close>, \<^verbatim>\<open>get_timestamp\<close> and \<^verbatim>\<open>format_timestamp\<close> gets a result that
  echoes the request's id, has the error \<^verbatim>\<open>unknown tool: <name>\<close> and no value. The
  dispatcher returns a result for every request: it has no outcome that is a fault.
\<close>

theorem unknown_tool_is_error:
  assumes "module_import = Inr reg"
    and "toolName request \<notin> {''get_current_time'', ''get_timestamp'', ''format_timestamp''}"
  shows "dispatch reg P request =
           \<lparr> res_id = req_id request, res_value = None,
             res_error = Some (''unknown tool: '' @ toolName request) \<rparr>"
proof -
  have "reg = [get_current_time_tool, get_timestamp_tool, format_timestamp_tool]"
    using assms(1) by (simp add: module_import_tools)
  then have "toolName request \<notin> set (map name reg)"
    using assms(2) by (simp add: registered_names)
  then show ?thesis
    by (simp add: dispatch_def lookup_miss)
qed

theorem unknown_tool_is_error_witness:
  "(module_import :: registry_error + (string \<times> int, int \<times> string) registry) =
      Inr [get_current_time_tool, get_timestamp_tool, format_timestamp_tool]
   \<and> ''does-not-exist'' \<notin> {''get_current_time'', ''get_timestamp'', ''format_timestamp''}
   \<and> dispatch [get_current_time_tool, get_timestamp_tool, format_timestamp_tool]
        example_platform
        \<lparr> req_id = ''7'', toolName = ''does-not-exist'', arguments = Map.empty \<rparr> =
       \<lparr> res_id = ''7'', res_value = None,
         res_error = Some ''unknown tool: does-not-exist'' \<rparr>"
proof -
  have a: "(module_import :: registry_error + (string \<times> int, int \<times> string) registry) =
      Inr [get_current_time_tool, get_timestamp_tool, format_timestamp_tool]"
    by (rule module_import_tools)
  have b: "toolName \<lparr> req_id = ''7'', toolName = ''does-not-exist'', arguments = Map.empty \<rparr>
      \<notin> {''get_current_time'', ''get_timestamp'', ''format_timestamp''}"
    by simp
  show ?thesis
    using a unknown_tool_is_error [OF a b, of example_platform] by simp
qed

section \<open>What serving leaves unchanged\<close>

lemma perform_keeps:
  "tools (fst (perform rq st eff)) = tools (fst st)
   \<and> endpoint (sse_transport (fst (perform rq st eff))) = endpoint (sse_transport (fst st))"
  by (cases st; cases eff)
     (auto simp: connect_sse_def handle_post_message_def split: option.splits prod.splits)

lemma foldl_perform_keeps:
  "tools (fst (foldl (perform rq) st effs)) = tools (fst st)
   \<and> endpoint (sse_transport (fst (foldl (perform rq) st effs))) = endpoint (sse_transport (fst st))"
proof (induction effs arbitrary: st)
  case Nil
  then show ?case by simp
next
  case (Cons eff effs)
  show ?case using Cons.IH [of "perform rq st eff"] perform_keeps [of rq st eff] by simp
qed

lemma exchange_keeps:
  "tools (fst (exchange srv rq)) = tools srv
   \<and> endpoint (sse_transport (fst (exchange srv rq))) = endpoint (sse_transport srv)"
  using foldl_perform_keeps [of rq "(srv, [])"]
  by (simp add: exchange_def split: sum.splits)

lemma step_keeps:
  "tools (step srv ev) = tools srv
   \<and> endpoint (sse_transport (step srv ev)) = endpoint (sse_transport srv)"
  by (cases ev) (simp_all add: exchange_keeps close_session_def)

lemma serve_keeps:
  "tools (serve srv evs) = tools srv
   \<and> endpoint (sse_transport (serve srv evs)) = endpoint (sse_transport srv)"
  unfolding serve_def
proof (induction evs arbitrary: srv)
  case Nil
  then show ?case by simp
next
  case (Cons ev evs)
  show ?case using Cons.IH [of "step srv ev"] step_keeps [of srv ev] by simp
qed

text \<open>
  C5. The import registers the three tools, without a duplicate-name failure, before
  \<^verbatim>\<open>main\<close> runs; their names are \<^verbatim>\<open>get_current_time\<close>, \<^verbatim>\<open>get_timestamp\<close> and
  \<^verbatim>\<open>format_timestamp\<close>, pairwise distinct; and whatever requests and disconnections the
  server then handles, its registry is the one it started with.
\<close>

theorem registry_built_at_import_then_frozen:
  "(module_import :: registry_error + ('tz, 'dt) registry) =
      Inr [get_current_time_tool, get_timestamp_tool, format_timestamp_tool]
   \<and> (process opts :: registry_error + ('tz, 'dt) registry \<times> main_effect list) =
      Inr ([get_current_time_tool, get_timestamp_tool, format_timestamp_tool], main opts)
   \<and> map name [get_current_time_tool, get_timestamp_tool,
        format_timestamp_tool :: ('tz, 'dt) ToolDescriptor] =
      [''get_current_time'', ''get_timestamp'', ''format_timestamp'']
   \<and> distinct (map name [get_current_time_tool, get_timestamp_tool,
        format_timestamp_tool :: ('tz, 'dt) ToolDescriptor])
   \<and> tools (serve (srv :: ('tz, 'dt) server) evs) = tools srv"
  by (simp add: module_import_tools process_def registered_names serve_keeps)

theorem registry_built_at_import_then_frozen_witness:
  "(process [Remote] :: registry_error + (unit, unit) registry \<times> main_effect list) =
      Inr ([get_current_time_tool, get_timestamp_tool, format_timestamp_tool], main [Remote])
   \<and> tools (serve (remote_server [get_current_time_tool, get_timestamp_tool,
          format_timestamp_tool :: (unit, unit) ToolDescriptor])
        [Http (open_stream ''a''), Disconnect ''a'']) =
      tools (remote_server [get_current_time_tool, get_timestamp_tool, format_timestamp_tool])"
  using registry_built_at_import_then_frozen [of "[Remote]"
      "remote_server [get_current_time_tool, get_timestamp_tool,
         format_timestamp_tool :: (unit, unit) ToolDescriptor]"
      "[Http (open_stream ''a''), Disconnect ''a'']"]
  by simp

section \<open>The announced endpoint\<close>

lemma app_post_to:
  assumes "url_path url = ''/messages''"
  shows "app (rq_scope (post_to url b)) = Inr [Handle_post_message]"
  using assms
  by (simp add: post_to_def app_def subscript_def get_default_def)

lemma app_open_stream: "app (rq_scope (open_stream sid)) = Inr handle_sse"
  by (simp add: open_stream_def app_def subscript_def get_default_def)

lemma open_stream_minted: "rq_minted (open_stream sid) = sid"
  by (simp add: open_stream_def)

lemma post_to_post:
  "rq_post (post_to url b) = \<lparr> session_token = Some (url_session_id url), body = b \<rparr>"
  by (simp add: post_to_def)

lemma exchange_open_stream:
  "exchange srv (open_stream sid) =
     (srv\<lparr>sse_transport := (sse_transport srv)\<lparr>sessions := (sessions (sse_transport srv))(sid \<mapsto> [])\<rparr>\<rparr>,
      [Endpoint_event \<lparr> url_path = endpoint (sse_transport srv), url_session_id = sid \<rparr>])"
  by (simp add: exchange_def app_open_stream handle_sse_def connect_sse_def open_stream_minted)

lemma exchange_post:
  assumes "app (rq_scope rq) = Inr [Handle_post_message]"
  shows "exchange srv rq =
     (srv\<lparr>sse_transport := fst (handle_post_message (sse_transport srv) (rq_post rq))\<rparr>,
      [Post_reply (snd (handle_post_message (sse_transport srv) (rq_post rq)))])"
  by (simp add: exchange_def assms split: prod.splits)

lemma serving_endpoint:
  "endpoint (sse_transport (serve (remote_server reg) evs)) = ''/messages''"
  by (simp add: serve_keeps remote_server_def new_transport_def)

text \<open>
  C6. In every state the remote server reaches, the event a newly opened stream receives
  first announces the path \<^verbatim>\<open>/messages\<close> with the session's identifier; a POST to that
  path is handed by the router to the message-delivery handler; and a well-formed
  message posted to the announced URL right after the stream was opened is accepted.
\<close>

theorem announced_endpoint_is_routed:
  "snd (exchange (serve (remote_server reg) evs) (open_stream sid)) =
     [Endpoint_event \<lparr> url_path = ''/messages'', url_session_id = sid \<rparr>]
   \<and> app (rq_scope (post_to \<lparr> url_path = ''/messages'', url_session_id = sid \<rparr> b)) =
       Inr [Handle_post_message]
   \<and> snd (exchange (fst (exchange (serve (remote_server reg) evs) (open_stream sid)))
            (post_to \<lparr> url_path = ''/messages'', url_session_id = sid \<rparr> (Some m))) =
       [Post_reply Accepted_202]"
proof -
  let ?srv = "serve (remote_server reg) evs"
  let ?url = "\<lparr> url_path = ''/messages'', url_session_id = sid \<rparr>"
  have 1: "snd (exchange ?srv (open_stream sid)) = [Endpoint_event ?url]"
    by (simp add: exchange_open_stream serving_endpoint)
  have 2: "app (rq_scope (post_to ?url b)) = Inr [Handle_post_message]" for b
    by (rule app_post_to) simp
  have 3: "snd (exchange (fst (exchange ?srv (open_stream sid))) (post_to ?url (Some m))) =
       [Post_reply Accepted_202]"
    unfolding exchange_open_stream exchange_post [OF 2]
    by (simp add: handle_post_message_def post_to_post)
  from 1 2 3 show ?thesis by blast
qed

theorem announced_endpoint_is_routed_witness:
  "snd (exchange (serve (remote_server ([] :: (unit, unit) registry)) []) (open_stream ''s1'')) =
     [Endpoint_event \<lparr> url_path = ''/messages'', url_session_id = ''s1'' \<rparr>]
   \<and> app (rq_scope (post_to \<lparr> url_path = ''/messages'', url_session_id = ''s1'' \<rparr> None)) =
       Inr [Handle_post_message]"
  using announced_endpoint_is_routed
    [of "[] :: (unit, unit) registry" "[]" "''s1''" None "''hello''"]
  by simp

section \<open>Startup configuration\<close>

lemma foldl_store_remote:
  "remote (foldl store a opts) = (remote a \<or> Remote \<in> set opts)"
proof (induction opts arbitrary: a)
  case Nil
  then show ?case by simp
next
  case (Cons x xs)
  show ?case unfolding foldl_Cons Cons.IH by (cases x) auto
qed

lemma foldl_store_host:
  "host (foldl store a opts) =
     (if hosts_given opts = [] then host a else last (hosts_given opts))"
proof (induction opts arbitrary: a)
  case Nil
  then show ?case by simp
next
  case (Cons x xs)
  show ?case unfolding foldl_Cons Cons.IH by (cases x) simp_all
qed

lemma foldl_store_port:
  "port (foldl store a opts) =
     (if ports_given opts = [] then port a else last (ports_given opts))"
proof (induction opts arbitrary: a)
  case Nil
  then show ?case by simp
next
  case (Cons x xs)
  show ?case unfolding foldl_Cons Cons.IH by (cases x) simp_all
qed

lemma parse_args_fields:
  "remote (parse_args opts) = (Remote \<in> set opts)"
  "host (parse_args opts) = chosen_host opts"
  "port (parse_args opts) = chosen_port opts"
  by (simp_all add: parse_args_def default_args_def chosen_host_def chosen_port_def
      foldl_store_remote foldl_store_host foldl_store_port)

lemma no_host_given: "(\<forall>h. Host h \<notin> set opts) \<Longrightarrow> hosts_given opts = []"
  by (induction opts rule: hosts_given.induct) auto

lemma no_port_given: "(\<forall>p. Port p \<notin> set opts) \<Longrightarrow> ports_given opts = []"
  by (induction opts rule: ports_given.induct) auto

lemma hosts_given_append: "hosts_given (xs @ ys) = hosts_given xs @ hosts_given ys"
  by (induction xs rule: hosts_given.induct) simp_all

lemma ports_given_append: "ports_given (xs @ ys) = ports_given xs @ ports_given ys"
  by (induction xs rule: ports_given.induct) simp_all

text \<open>
  C7. \<^verbatim>\<open>main\<close> parses the options once and starts exactly one transport: without
  \<^verbatim>\<open>--remote\<close> it is \<^verbatim>\<open>mcp.run(transport="stdio")\<close> and nothing else; with \<^verbatim>\<open>--remote\<close>
  it is \<^verbatim>\<open>run_sse_server\<close>, whose one transport call is \<^verbatim>\<open>uvicorn.run\<close> on the host and
  port asked for: \<^verbatim>\<open>0.0.0.0\<close> and 8000 when the option is absent, the last value given
  otherwise. The host and port are values passed on, so nothing later changes them.
\<close>

theorem main_starts_one_transport:
  "(Remote \<notin> set opts \<longrightarrow> main opts = [Mcp_run ''stdio''])
   \<and> (Remote \<in> set opts \<longrightarrow>
        main opts = run_sse_server (chosen_host opts) (chosen_port opts))
   \<and> filter starts_transport (main opts) =
       [if Remote \<in> set opts then Uvicorn_run (chosen_host opts) (chosen_port opts)
        else Mcp_run ''stdio'']
   \<and> ((\<forall>h. Host h \<notin> set opts) \<longrightarrow> chosen_host opts = ''0.0.0.0'')
   \<and> ((\<forall>p. Port p \<notin> set opts) \<longrightarrow> chosen_port opts = 8000)
   \<and> chosen_host (opts @ [Host h]) = h
   \<and> chosen_port (opts @ [Port p]) = p"
proof -
  have 1: "Remote \<notin> set opts \<longrightarrow> main opts = [Mcp_run ''stdio'']"
    by (simp add: main_def Let_def parse_args_fields)
  have 2: "Remote \<in> set opts \<longrightarrow>
        main opts = run_sse_server (chosen_host opts) (chosen_port opts)"
    by (simp add: main_def Let_def parse_args_fields)
  have 3: "filter starts_transport (main opts) =
       [if Remote \<in> set opts then Uvicorn_run (chosen_host opts) (chosen_port opts)
        else Mcp_run ''stdio'']"
    by (simp add: main_def Let_def parse_args_fields run_sse_server_def)
  have 4: "(\<forall>h. Host h \<notin> set opts) \<longrightarrow> chosen_host opts = ''0.0.0.0''"
    by (simp add: chosen_host_def no_host_given)
  have 5: "(\<forall>p. Port p \<notin> set opts) \<longrightarrow> chosen_port opts = 8000"
    by (simp add: chosen_port_def no_port_given)
  have 6: "chosen_host (opts @ [Host h]) = h"
    by (simp add: chosen_host_def hosts_given_append)
  have 7: "chosen_port (opts @ [Port p]) = p"
    by (simp add: chosen_port_def ports_given_append)
  from 1 2 3 4 5 6 7 show ?thesis by blast
qed

theorem main_starts_one_transport_witness:
  "Remote \<notin> set [Host ''127.0.0.1'']
   \<and> main [Host ''127.0.0.1''] = [Mcp_run ''stdio'']
   \<and> Remote \<in> set [Remote]
   \<and> (\<forall>h. Host h \<notin> set [Remote])
   \<and> (\<forall>p. Port p \<notin> set [Remote])
   \<and> main [Remote] = run_sse_server ''0.0.0.0'' 8000
   \<and> filter starts_transport (main [Remote]) = [Uvicorn_run ''0.0.0.0'' 8000]"
proof -
  have a: "\<forall>h. Host h \<notin> set [Remote]" by simp
  have b: "\<forall>p. Port p \<notin> set [Remote]" by simp
  have local: "main [Host ''127.0.0.1''] = [Mcp_run ''stdio'']"
    using main_starts_one_transport [of "[Host ''127.0.0.1'']" "[]" 0] by simp
  have h: "chosen_host [Remote] = ''0.0.0.0''"
    using a main_starts_one_transport [of "[Remote]" "[]" 0] by blast
  have p: "chosen_port [Remote] = 8000"
    using b main_starts_one_transport [of "[Remote]" "[]" 0] by blast
  have networked: "main [Remote] = run_sse_server ''0.0.0.0'' 8000"
    using main_starts_one_transport [of "[Remote]" "[]" 0] by (simp add: h p)
  have once: "filter starts_transport (main [Remote]) = [Uvicorn_run ''0.0.0.0'' 8000]"
    using main_starts_one_transport [of "[Remote]" "[]" 0]
    by (simp add: h p run_sse_server_def)
  from a b local networked once show ?thesis by simp
qed

section \<open>Posting to a session\<close>






end
